theory Spec2Isabelle
  imports Complex_Main "HOL-Library.Sublist"
begin

section \<open>Basic types\<close>

text \<open>
  Go's \<open>float64\<close> readings are only copied by this program, never computed with, so
  they are represented by their (finite) numeric value. A Go \<open>error\<close> is represented
  by its message; wall-clock instants and durations are counted in nanoseconds.
\<close>

type_synonym float64 = real
type_synonym err = string
type_synonym instant = nat
type_synonym duration = nat

definition Second :: duration where
  "Second = 1000000000"

subsection \<open>Logging (zap)\<close>

datatype level = InfoLevel | ErrorLevel | FatalLevel

datatype zfield = ZapError err | ZapString string string

type_synonym log_entry = "level \<times> string \<times> zfield list"

subsection \<open>The store client's data (influxdb1-client)\<close>

text \<open>
  \<open>interface{}\<close> values stored in a point's field map; the program only ever stores
  \<open>float64\<close> values there.
\<close>

datatype iface = Float64 float64

record Point =
  measurement :: string
  ptags :: "string \<rightharpoonup> string"
  pfields :: "string \<rightharpoonup> iface"
  timestamp :: instant

record BatchPointsConfig =
  Database :: string
  Precision :: string

record BatchPoints =
  database :: string
  precision :: string
  points :: "Point list"

record HTTPConfig =
  Addr :: string
  Username :: string
  Password :: string
  Timeout :: duration

datatype Client = HTTPClient HTTPConfig

subsection \<open>The world outside the program\<close>

text \<open>
  \<open>now\<close> is the wall clock, \<open>logs\<close> what the logger has printed, \<open>written\<close> the
  batches handed to \<open>client.Write\<close> so far (in call order), \<open>closed\<close> whether
  \<open>client.Close\<close> has been called.
\<close>

record world =
  now :: instant
  logs :: "log_entry list"
  written :: "BatchPoints list"
  closed :: bool

definition log_Info :: "world \<Rightarrow> string \<Rightarrow> zfield list \<Rightarrow> world" where
  "log_Info w msg fs = w\<lparr>logs := logs w @ [(InfoLevel, msg, fs)]\<rparr>"

definition log_Error :: "world \<Rightarrow> string \<Rightarrow> zfield list \<Rightarrow> world" where
  "log_Error w msg fs = w\<lparr>logs := logs w @ [(ErrorLevel, msg, fs)]\<rparr>"

text \<open>\<open>log.Fatal\<close> prints the entry and then exits the process.\<close>

definition log_Fatal :: "world \<Rightarrow> string \<Rightarrow> zfield list \<Rightarrow> world" where
  "log_Fatal w msg fs = w\<lparr>logs := logs w @ [(FatalLevel, msg, fs)]\<rparr>"

section \<open>Package bus\<close>

text \<open>
  A Go map is represented by its entries, in the order in which \<open>range\<close> visits them
  (an order Go leaves unspecified); the keys of a Go map are distinct.
\<close>

record DataCollectedEvent =
  DeviceID :: string
  Values :: "(string \<times> float64) list"

text \<open>
  A subscriber is a \<open>func(DataCollectedEvent)\<close>: it acts on the world and either
  returns or panics.
\<close>

datatype outcome = Returned | Panicked

type_synonym handler = "DataCollectedEvent \<Rightarrow> world \<Rightarrow> outcome \<times> world"

record EventBus =
  subscribers :: "handler list"

text \<open>
  A goroutine created by a \<open>go\<close> statement: the function and its argument. The run
  queue holds the goroutines that have been created and whose completion nobody waits
  for.
\<close>

record goroutine =
  fn :: handler
  arg :: DataCollectedEvent

definition NewEventBus :: EventBus where
  "NewEventBus = \<lparr>subscribers = []\<rparr>"

definition Subscribe :: "EventBus \<Rightarrow> handler \<Rightarrow> EventBus" where
  "Subscribe b f = b\<lparr>subscribers := subscribers b @ [f]\<rparr>"

text \<open>The loop of \<open>Publish\<close>: one \<open>go sub(e)\<close> per element of the slice.\<close>

fun Publish_loop :: "handler list \<Rightarrow> DataCollectedEvent \<Rightarrow> goroutine list \<Rightarrow> goroutine list" where
  "Publish_loop [] e q = q"
| "Publish_loop (sub # rest) e q = Publish_loop rest e (q @ [\<lparr>fn = sub, arg = e\<rparr>])"

definition Publish :: "EventBus \<Rightarrow> DataCollectedEvent \<Rightarrow> goroutine list \<Rightarrow> goroutine list" where
  "Publish b e q = Publish_loop (subscribers b) e q"

text \<open>
  The state of the running program as far as the bus is concerned: the bus, the run
  queue and the world.
\<close>

record prog =
  pbus :: EventBus
  runq :: "goroutine list"
  pworld :: world

datatype bus_call = CallSubscribe handler | CallPublish DataCollectedEvent

fun bus_step :: "bus_call \<Rightarrow> prog \<Rightarrow> prog" where
  "bus_step (CallSubscribe f) s = s\<lparr>pbus := Subscribe (pbus s) f\<rparr>"
| "bus_step (CallPublish e) s = s\<lparr>runq := Publish (pbus s) e (runq s)\<rparr>"

fun bus_steps :: "bus_call list \<Rightarrow> prog \<Rightarrow> prog" where
  "bus_steps [] s = s"
| "bus_steps (c # cs) s = bus_steps cs (bus_step c s)"

text \<open>
  The scheduler runs the \<open>i\<close>-th pending goroutine to completion: it leaves the run
  queue and its function is applied to the world. A panic that nobody recovers ends
  the process, which the outcome records.
\<close>

definition run_goroutine :: "nat \<Rightarrow> prog \<Rightarrow> (outcome \<times> prog) option" where
  "run_goroutine i s =
     (if i < length (runq s)
      then (let g = runq s ! i;
                (out, w') = fn g (arg g) (pworld s)
            in Some (out, s\<lparr>runq := take i (runq s) @ drop (Suc i) (runq s), pworld := w'\<rparr>))
      else None)"

section \<open>Package infra: the InfluxDB repository\<close>

text \<open>
  The functions of the store client library and of Go's standard library that the
  repository calls are not part of the repository; the model takes what they answer as
  parameters. \<open>NewBatchPoints\<close> answers with Go's pair of a batch (\<open>None\<close> is
  \<open>nil\<close>) and an error (\<open>None\<close> is \<open>nil\<close>); the answer of \<open>Write\<close> may depend on
  the client, on what has been written before and on the batch, and says how long the
  call took.
\<close>

record library =
  ParseDuration :: "string \<Rightarrow> err + duration"
  NewHTTPClient :: "HTTPConfig \<Rightarrow> err + Client"
  NewBatchPoints :: "BatchPointsConfig \<Rightarrow> BatchPoints option \<times> err option"
  NewPoint_error :: "string \<Rightarrow> (string \<rightharpoonup> string) \<Rightarrow> (string \<rightharpoonup> iface) \<Rightarrow> instant \<Rightarrow> err option"
  Write :: "Client \<Rightarrow> BatchPoints list \<Rightarrow> BatchPoints \<Rightarrow> err option \<times> duration"

text \<open>
  \<open>client.NewPoint\<close> either refuses its arguments or returns the point that holds them;
  \<open>AddPoint\<close> appends a point to a batch.
\<close>

definition NewPoint ::
  "library \<Rightarrow> string \<Rightarrow> (string \<rightharpoonup> string) \<Rightarrow> (string \<rightharpoonup> iface) \<Rightarrow> instant \<Rightarrow> err + Point" where
  "NewPoint lib name tgs flds t =
     (case NewPoint_error lib name tgs flds t of
        Some e \<Rightarrow> Inl e
      | None \<Rightarrow> Inr \<lparr>measurement = name, ptags = tgs, pfields = flds, timestamp = t\<rparr>)"

definition AddPoint :: "BatchPoints \<Rightarrow> Point \<Rightarrow> BatchPoints" where
  "AddPoint bp pt = bp\<lparr>points := points bp @ [pt]\<rparr>"

record InfluxRepo =
  client :: Client

text \<open>\<open>for k, v := range e.Values { fields[k] = v }\<close>\<close>

fun copy_fields :: "(string \<times> float64) list \<Rightarrow> (string \<rightharpoonup> iface) \<Rightarrow> (string \<rightharpoonup> iface)" where
  "copy_fields [] flds = flds"
| "copy_fields ((k, v) # rest) flds = copy_fields rest (flds(k \<mapsto> Float64 v))"

text \<open>
  The closure that \<open>NewInfluxRepo\<close> passes to \<open>Subscribe\<close>; it captures \<open>repo\<close>,
  \<open>influxDatabase\<close> and \<open>influxPrecision\<close>. The error of \<open>NewBatchPoints\<close> goes to the
  blank identifier. \<open>bp\<close> is an interface value: calling \<open>bp.AddPoint\<close> on \<open>nil\<close>
  panics.
\<close>

definition subscriber :: "library \<Rightarrow> InfluxRepo \<Rightarrow> string \<Rightarrow> string \<Rightarrow> handler" where
  "subscriber lib repo influxDatabase influxPrecision e w =
     (let bp = fst (NewBatchPoints lib \<lparr>Database = influxDatabase, Precision = influxPrecision\<rparr>);
          tgs = [''device'' \<mapsto> DeviceID e];
          flds = copy_fields (Values e) Map.empty
      in case NewPoint lib ''device_data'' tgs flds (now w) of
           Inl e1 \<Rightarrow> (Returned, log_Error w ''influx point create failed'' [ZapError e1])
         | Inr pt \<Rightarrow>
             (case bp of
                None \<Rightarrow> (Panicked, w)
              | Some b \<Rightarrow>
                  (let b' = AddPoint b pt;
                       (r, took) = Write lib (client repo) (written w) b';
                       w' = w\<lparr>written := written w @ [b'], now := now w + took\<rparr>
                   in case r of
                        Some e2 \<Rightarrow> (Returned, log_Error w' ''influx write failed'' [ZapError e2])
                      | None \<Rightarrow>
                          (Returned,
                           log_Info w' ''influx write success'' [ZapString ''device'' (DeviceID e)]))))"

subsection \<open>Construction\<close>

text \<open>\<open>os.Getenv\<close>: the value of a variable, empty when it is not set.\<close>

type_synonym environ = "string \<Rightarrow> string"

record Hook =
  OnStart :: "(world \<Rightarrow> world) option"
  OnStop :: "(world \<Rightarrow> world) option"

type_synonym Lifecycle = "Hook list"

definition Append :: "Lifecycle \<Rightarrow> Hook \<Rightarrow> Lifecycle" where
  "Append lc h = lc @ [h]"

definition Close :: "world \<Rightarrow> world" where
  "Close w = w\<lparr>closed := True\<rparr>"

text \<open>
  \<open>NewInfluxRepo\<close> either ends the process in \<open>log.Fatal\<close> (\<open>Inl\<close>, with the world
  the process leaves behind) or returns the repository, having appended its stop hook
  to the lifecycle and its closure to the bus.
\<close>

definition NewInfluxRepo ::
  "library \<Rightarrow> environ \<Rightarrow> Lifecycle \<Rightarrow> world \<Rightarrow> EventBus \<Rightarrow> world + (InfluxRepo \<times> Lifecycle \<times> EventBus)" where
  "NewInfluxRepo lib getenv lc w eb =
     (let influxURL = getenv ''APP_INFLUX_URL'';
          influxUsername = getenv ''APP_INFLUX_USERNAME'';
          influxPassword = getenv ''APP_INFLUX_PASSWORD'';
          influxDatabase = getenv ''APP_INFLUX_DATABASE'';
          influxPrecision = getenv ''APP_INFLUX_PRECISION'';
          influxTimeout = getenv ''APP_INFLUX_TIMEOUT'';
          influxURL = (if influxURL = [] then ''http://localhost:8086'' else influxURL);
          influxUsername = (if influxUsername = [] then ''admin'' else influxUsername);
          influxPassword = (if influxPassword = [] then [] else influxPassword)
      in if influxDatabase = [] then Inl (log_Fatal w ''influx database is required'' [])
         else
           (let influxPrecision = (if influxPrecision = [] then ''s'' else influxPrecision);
                influxTimeout = (if influxTimeout = [] then ''5s'' else influxTimeout)
            in case ParseDuration lib influxTimeout of
                 Inl e1 \<Rightarrow> Inl (log_Fatal w ''failed to parse influx timeout'' [ZapError e1])
               | Inr timeout \<Rightarrow>
                   (case NewHTTPClient lib
                           \<lparr>Addr = influxURL, Username = influxUsername,
                            Password = influxPassword, Timeout = timeout\<rparr> of
                      Inl e2 \<Rightarrow> Inl (log_Fatal w ''failed to connect influxdb'' [ZapError e2])
                    | Inr c \<Rightarrow>
                        (let repo = \<lparr>client = c\<rparr>;
                             eb' = Subscribe eb (subscriber lib repo influxDatabase influxPrecision);
                             lc' = Append lc \<lparr>OnStart = None, OnStop = Some Close\<rparr>
                         in Inr (repo, lc', eb')))))"

section \<open>Package app: the collector\<close>

text \<open>
  What one \<open>select\<close> of the loop receives: the context's cancellation or a tick. The
  list given to \<open>Start\<close> is what the runtime delivers to the successive selects, in
  order. The loop's effects are the calls it makes, in order: log entries and
  \<open>c.bus.Publish\<close>.
\<close>

datatype recv = CtxDone | TickerC

datatype action = LogInfo string | BusPublish DataCollectedEvent

text \<open>\<open>Exited\<close>: \<open>Start\<close> has returned. \<open>Waiting\<close>: the loop is blocked in \<open>select\<close>.\<close>

datatype status = Exited | Waiting

record Ticker =
  period :: duration
  stopped :: bool

definition NewTicker :: "duration \<Rightarrow> Ticker" where
  "NewTicker d = \<lparr>period = d, stopped = False\<rparr>"

definition Stop :: "Ticker \<Rightarrow> Ticker" where
  "Stop t = t\<lparr>stopped := True\<rparr>"

fun Start_loop :: "recv list \<Rightarrow> action list \<Rightarrow> action list \<times> status" where
  "Start_loop [] acts = (acts, Waiting)"
| "Start_loop (CtxDone # rest) acts = (acts @ [LogInfo ''collector exit''], Exited)"
| "Start_loop (TickerC # rest) acts =
     Start_loop rest
       (acts @ [LogInfo ''collecting data...'',
                BusPublish \<lparr>DeviceID = ''A1'', Values = [(''temp'', 23.5)]\<rparr>])"

text \<open>The deferred \<open>ticker.Stop()\<close> runs when \<open>Start\<close> returns.\<close>

definition Start :: "recv list \<Rightarrow> action list \<times> Ticker \<times> status" where
  "Start sched =
     (let ticker = NewTicker (3 * Second);
          (acts, st) = Start_loop sched []
      in (acts, (if st = Exited then Stop ticker else ticker), st))"

text \<open>The events the loop has published, in order.\<close>

fun published :: "action list \<Rightarrow> DataCollectedEvent list" where
  "published [] = []"
| "published (LogInfo m # acts) = published acts"
| "published (BusPublish e # acts) = e # published acts"

text \<open>The effect of the loop's calls on the running program.\<close>

fun perform :: "action \<Rightarrow> prog \<Rightarrow> prog" where
  "perform (LogInfo m) s = s\<lparr>pworld := log_Info (pworld s) m []\<rparr>"
| "perform (BusPublish e) s = bus_step (CallPublish e) s"

text \<open>
  A ticker fires once per period after its creation: by the time \<open>t\<close> after it, and
  while the context is not cancelled, the selects of the loop have received
  \<open>t div period\<close> ticks.
\<close>

definition ticks_by :: "Ticker \<Rightarrow> duration \<Rightarrow> recv list" where
  "ticks_by tk t = replicate (t div period tk) TickerC"

section \<open>The running program\<close>

text \<open>
  The stop hooks of the lifecycle run in the reverse of the order in which they were
  appended.
\<close>

fun run_OnStop :: "Lifecycle \<Rightarrow> world \<Rightarrow> world" where
  "run_OnStop [] w = w"
| "run_OnStop (h # hs) w =
     (let w' = run_OnStop hs w in case OnStop h of Some f \<Rightarrow> f w' | None \<Rightarrow> w')"

text \<open>
  What happens once the components are constructed: the collector publishes, the
  scheduler runs a pending goroutine, the lifecycle stops. Nothing in the repository
  subscribes after construction.
\<close>

datatype life_step = Publishes DataCollectedEvent | Runs nat | Stops Lifecycle

fun live :: "life_step \<Rightarrow> prog \<Rightarrow> prog" where
  "live (Publishes e) s = bus_step (CallPublish e) s"
| "live (Runs i) s = (case run_goroutine i s of Some (out, s') \<Rightarrow> s' | None \<Rightarrow> s)"
| "live (Stops lc) s = s\<lparr>pworld := run_OnStop lc (pworld s)\<rparr>"

fun lives :: "life_step list \<Rightarrow> prog \<Rightarrow> prog" where
  "lives [] s = s"
| "lives (x # xs) s = lives xs (live x s)"

section \<open>A stand-in for the library, for concrete runs\<close>

text \<open>
  A library that answers as the real one does on the inputs used below:
  \<open>NewBatchPoints\<close> accepts a precision that is a unit of a Go duration (the empty
  precision stands for \<open>ns\<close>) and otherwise returns \<open>nil\<close> and an error;
  \<open>NewPoint\<close> refuses a point without fields; the store accepts every write, in two
  milliseconds.
\<close>

definition stub_ParseDuration :: "string \<Rightarrow> err + duration" where
  "stub_ParseDuration s =
     (if s = ''5s'' then Inr (5 * Second)
      else if s = ''10s'' then Inr (10 * Second)
      else Inl ''time: invalid duration'')"

definition stub_NewBatchPoints :: "BatchPointsConfig \<Rightarrow> BatchPoints option \<times> err option" where
  "stub_NewBatchPoints conf =
     (let p = (if Precision conf = [] then ''ns'' else Precision conf)
      in if p \<in> set [''ns'', ''us'', ''ms'', ''s'', ''m'', ''h'']
         then (Some \<lparr>database = Database conf, precision = p, points = []\<rparr>, None)
         else (None, Some ''time: unknown unit''))"

definition stub_NewPoint_error ::
  "string \<Rightarrow> (string \<rightharpoonup> string) \<Rightarrow> (string \<rightharpoonup> iface) \<Rightarrow> instant \<Rightarrow> err option" where
  "stub_NewPoint_error name tgs flds t =
     (if flds = Map.empty then Some ''Point without fields is unsupported'' else None)"

definition stub_library :: library where
  "stub_library =
     \<lparr>ParseDuration = stub_ParseDuration,
      NewHTTPClient = (\<lambda>conf. Inr (HTTPClient conf)),
      NewBatchPoints = stub_NewBatchPoints,
      NewPoint_error = stub_NewPoint_error,
      Write = (\<lambda>c before bp. (None, 2000000))\<rparr>"

text \<open>The same library in front of a store that answers every write with a timeout.\<close>

definition stub_library_store_down :: library where
  "stub_library_store_down = stub_library\<lparr>Write := (\<lambda>c before bp. (Some ''timeout'', 5 * Second))\<rparr>"


text \<open>A process environment that sets only the database name, and one that sets nothing.\<close>

definition env_database_only :: environ where
  "env_database_only name = (if name = ''APP_INFLUX_DATABASE'' then ''telemetry'' else [])"


text \<open>An environment with a precision that is no unit of time.\<close>

definition env_bad_precision :: environ where
  "env_bad_precision name =
     (if name = ''APP_INFLUX_DATABASE'' then ''telemetry''
      else if name = ''APP_INFLUX_PRECISION'' then ''sec''
      else [])"


definition world0 :: world where
  "world0 = \<lparr>now = 0, logs = [], written = [], closed = False\<rparr>"

text \<open>The client that the stand-in library creates when only the database name is set.\<close>

definition default_client :: Client where
  "default_client =
     HTTPClient \<lparr>Addr = ''http://localhost:8086'', Username = ''admin'', Password = [],
                 Timeout = 5 * Second\<rparr>"

section \<open>The event bus: fan-out and the registry\<close>

lemma Publish_loop_eq:
  "Publish_loop subs e q = q @ map (\<lambda>sub. \<lparr>fn = sub, arg = e\<rparr>) subs"
  by (induction subs arbitrary: q) simp_all

text \<open>
  C1. \<open>Publish\<close> creates, for the event \<open>e\<close>, exactly one goroutine per handler in the
  registry at the time of the call, each applied to \<open>e\<close>: the run queue grows by the
  registry mapped to goroutines, so the \<open>i\<close>-th new goroutine is the \<open>i\<close>-th handler with
  \<open>e\<close> and there are exactly \<open>N\<close> of them, for every registry size \<open>N\<close> (also 0). All of
  them are still pending when \<open>Publish\<close> returns: no handler has been run, the world
  and the registry are as before, and \<open>Publish\<close> yields nothing else.
\<close>

theorem Publish_dispatches_each_once:
  "runq (bus_step (CallPublish e) s) =
      runq s @ map (\<lambda>sub. \<lparr>fn = sub, arg = e\<rparr>) (subscribers (pbus s))
   \<and> length (runq (bus_step (CallPublish e) s)) = length (runq s) + length (subscribers (pbus s))
   \<and> pworld (bus_step (CallPublish e) s) = pworld s
   \<and> pbus (bus_step (CallPublish e) s) = pbus s"
  by (simp add: Publish_def Publish_loop_eq)

text \<open>The registry after any sequence of bus calls extends the registry before.\<close>

lemma bus_step_prefix: "prefix (subscribers (pbus s)) (subscribers (pbus (bus_step c s)))"
  by (cases c) (simp_all add: Subscribe_def)

lemma bus_steps_prefix: "prefix (subscribers (pbus s)) (subscribers (pbus (bus_steps cs s)))"
proof (induction cs arbitrary: s)
  case Nil
  show ?case by simp
next
  case (Cons c cs)
  have "prefix (subscribers (pbus s)) (subscribers (pbus (bus_step c s)))"
    by (rule bus_step_prefix)
  also have "prefix \<dots> (subscribers (pbus (bus_steps cs (bus_step c s))))"
    by (rule Cons.IH)
  finally show ?case by simp
qed

lemma Subscribe_funpow_length:
  "length (subscribers (((\<lambda>b. Subscribe b h) ^^ n) b)) = length (subscribers b) + n"
  by (induction n) (simp_all add: Subscribe_def)

text \<open>
  C7. \<open>Subscribe\<close> puts the handler at the end of the subscriber sequence. Whatever
  calls of \<open>Subscribe\<close> and \<open>Publish\<close> are made, in any order, the registry before
  them is a prefix of the registry after them: every handler registered earlier is
  still there, at its position, and the registry is never shorter. Nothing bounds its
  length: \<open>n\<close> further subscriptions make it \<open>n\<close> longer, for every \<open>n\<close>.
\<close>

theorem Subscribe_appends_registry_only_grows:
  "subscribers (Subscribe b h) = subscribers b @ [h]
   \<and> prefix (subscribers (pbus s)) (subscribers (pbus (bus_steps cs s)))
   \<and> length (subscribers (pbus s)) \<le> length (subscribers (pbus (bus_steps cs s)))
   \<and> length (subscribers (((\<lambda>b. Subscribe b h) ^^ n) b)) = length (subscribers b) + n"
proof (intro conjI)
  show "subscribers (Subscribe b h) = subscribers b @ [h]"
    by (simp add: Subscribe_def)
  show "prefix (subscribers (pbus s)) (subscribers (pbus (bus_steps cs s)))"
    by (rule bus_steps_prefix)
  then show "length (subscribers (pbus s)) \<le> length (subscribers (pbus (bus_steps cs s)))"
    by (rule prefix_length_le)
  show "length (subscribers (((\<lambda>b. Subscribe b h) ^^ n) b)) = length (subscribers b) + n"
    by (rule Subscribe_funpow_length)
qed

section \<open>The collector's loop\<close>

lemma published_append: "published (xs @ ys) = published xs @ published ys"
  by (induction xs rule: published.induct) simp_all

lemma Start_eq:
  "Start sched =
     (fst (Start_loop sched []),
      (if snd (Start_loop sched []) = Exited then Stop (NewTicker (3 * Second))
       else NewTicker (3 * Second)),
      snd (Start_loop sched []))"
  by (simp add: Start_def Let_def case_prod_beta)

lemma Start_loop_cancel:
  "Start_loop (pre @ CtxDone # post) acts = Start_loop (pre @ [CtxDone]) acts"
proof (induction pre arbitrary: acts)
  case Nil
  show ?case by simp
next
  case (Cons r pre)
  then show ?case by (cases r) simp_all
qed

lemma Start_loop_cancel_status:
  "snd (Start_loop (pre @ [CtxDone]) acts) = Exited"
proof (induction pre arbitrary: acts)
  case Nil
  show ?case by simp
next
  case (Cons r pre)
  then show ?case by (cases r) simp_all
qed

lemma Start_loop_cancel_published:
  "published (fst (Start_loop (pre @ [CtxDone]) acts)) = published (fst (Start_loop pre acts))"
proof (induction pre arbitrary: acts)
  case Nil
  show ?case by (simp add: published_append)
next
  case (Cons r pre)
  show ?case
  proof (cases r)
    case CtxDone
    then show ?thesis by simp
  next
    case TickerC
    then show ?thesis using Cons.IH by simp
  qed
qed

lemma Start_loop_cancel_last:
  "last (fst (Start_loop (pre @ [CtxDone]) acts)) = LogInfo ''collector exit''"
proof (induction pre arbitrary: acts)
  case Nil
  show ?case by simp
next
  case (Cons r pre)
  then show ?case by (cases r) simp_all
qed

lemma Start_loop_published_count:
  "length (published (fst (Start_loop sched acts))) =
     length (published acts) + length (takeWhile (\<lambda>r. r = TickerC) sched)"
proof (induction sched arbitrary: acts)
  case Nil
  show ?case by simp
next
  case (Cons r pre)
  then show ?case by (cases r) (simp_all add: published_append)
qed

lemma takeWhile_ticks_cancel:
  "takeWhile (\<lambda>r. r = TickerC) (pre @ CtxDone # post) = takeWhile (\<lambda>r. r = TickerC) pre"
  by (induction pre) simp_all

text \<open>
  C5. In every execution in which a select of the loop receives the cancellation
  (after any selects \<open>pre\<close>, and whatever \<open>post\<close> the runtime would deliver later),
  \<open>Start\<close> returns, its ticker is stopped, and nothing that follows the cancellation
  has any effect: the execution is the one in which nothing follows, the events
  published are those published before the cancellation was received (one per tick
  received before it), and the last call the loop makes is the log entry
  \<open>collector exit\<close>, not a \<open>Publish\<close>.
\<close>

theorem Start_stops_on_cancellation:
  "snd (snd (Start (pre @ CtxDone # post))) = Exited
   \<and> stopped (fst (snd (Start (pre @ CtxDone # post))))
   \<and> Start (pre @ CtxDone # post) = Start (pre @ [CtxDone])
   \<and> published (fst (Start (pre @ CtxDone # post))) = published (fst (Start pre))
   \<and> last (fst (Start (pre @ CtxDone # post))) = LogInfo ''collector exit''
   \<and> length (published (fst (Start (pre @ CtxDone # post)))) =
       length (takeWhile (\<lambda>r. r = TickerC) pre)"
proof -
  have c: "Start_loop (pre @ CtxDone # post) [] = Start_loop (pre @ [CtxDone]) []"
    by (rule Start_loop_cancel)
  have st: "snd (Start_loop (pre @ [CtxDone]) []) = Exited"
    by (rule Start_loop_cancel_status)
  have eq: "Start (pre @ CtxDone # post) = Start (pre @ [CtxDone])"
    by (simp add: Start_eq c)
  have v: "Start (pre @ [CtxDone]) =
      (fst (Start_loop (pre @ [CtxDone]) []), Stop (NewTicker (3 * Second)), Exited)"
    using st by (simp add: Start_eq)
  have f: "fst (Start pre) = fst (Start_loop pre [])"
    by (simp add: Start_eq)
  show ?thesis
    unfolding eq v
    by (simp add: Stop_def f Start_loop_cancel_published Start_loop_cancel_last
        Start_loop_published_count takeWhile_ticks_cancel)
qed

lemma Start_loop_ticks:
  "Start_loop (replicate n TickerC) acts =
     (acts @ concat (replicate n [LogInfo ''collecting data...'',
                BusPublish \<lparr>DeviceID = ''A1'', Values = [(''temp'', 23.5)]\<rparr>]), Waiting)"
  by (induction n arbitrary: acts) simp_all

lemma published_ticks:
  "published (concat (replicate n [LogInfo m, BusPublish e])) = replicate n e"
  by (induction n) simp_all

lemma Start_ticks:
  "Start (replicate n TickerC) =
     (concat (replicate n [LogInfo ''collecting data...'',
                BusPublish \<lparr>DeviceID = ''A1'', Values = [(''temp'', 23.5)]\<rparr>]),
      NewTicker (3 * Second), Waiting)"
  by (simp add: Start_eq Start_loop_ticks)

lemma Start_period: "period (fst (snd (Start sched))) = 3 * Second"
  by (simp add: Start_eq NewTicker_def Stop_def)

text \<open>
  C4, as stated, calls the interval configurable. The period of the ticker is the
  constant \<open>3 * time.Second\<close> written in \<open>Start\<close>: there is no input of \<open>Start\<close>
  under which the ticker has any other period.
\<close>

theorem Start_interval_not_configurable:
  "\<not> (\<exists>sched. period (fst (snd (Start sched))) \<noteq> 3 * Second)"
  by (simp add: Start_period)

text \<open>
  C4, amended. The interval is fixed at 3 seconds. While no cancellation is received,
  every tick makes the loop log \<open>collecting data...\<close> and publish exactly one event,
  with \<open>DeviceID\<close> \<open>A1\<close> and the readings \<open>temp = 23.5\<close>: after \<open>n\<close> ticks exactly
  \<open>n\<close> such events have been published, one more tick publishes exactly one more, and
  the loop is still waiting with its ticker running. With the ticker firing once per
  period, \<open>t div 3s\<close> events have been published by the time \<open>t\<close> after the start:
  none at time 0 (none before the first 3 seconds have passed), and exactly one more
  in every further window of 3 seconds.
\<close>

theorem Start_publishes_once_per_tick:
  "Start (replicate n TickerC) =
     (concat (replicate n [LogInfo ''collecting data...'',
                BusPublish \<lparr>DeviceID = ''A1'', Values = [(''temp'', 23.5)]\<rparr>]),
      NewTicker (3 * Second), Waiting)
   \<and> published (fst (Start (replicate n TickerC))) =
       replicate n \<lparr>DeviceID = ''A1'', Values = [(''temp'', 23.5)]\<rparr>
   \<and> published (fst (Start (replicate n TickerC @ [TickerC]))) =
       published (fst (Start (replicate n TickerC))) @
         [\<lparr>DeviceID = ''A1'', Values = [(''temp'', 23.5)]\<rparr>]
   \<and> period (fst (snd (Start sched))) = 3 * Second
   \<and> published (fst (Start (ticks_by (NewTicker (3 * Second)) t))) =
       replicate (t div (3 * Second)) \<lparr>DeviceID = ''A1'', Values = [(''temp'', 23.5)]\<rparr>
   \<and> published (fst (Start (ticks_by (NewTicker (3 * Second)) 0))) = []
   \<and> length (published (fst (Start (ticks_by (NewTicker (3 * Second)) (t + 3 * Second))))) =
       length (published (fst (Start (ticks_by (NewTicker (3 * Second)) t)))) + 1"
proof -
  have a: "replicate n TickerC @ [TickerC] = replicate (Suc n) TickerC"
    by (simp add: replicate_append_same)
  have p: "\<And>k. published (fst (Start (replicate k TickerC))) =
       replicate k \<lparr>DeviceID = ''A1'', Values = [(''temp'', 23.5)]\<rparr>"
    by (simp add: Start_ticks published_ticks)
  have s: "(0::nat) < 3 * Second" by (simp add: Second_def)
  have d: "(t + 3 * Second) div (3 * Second) = t div (3 * Second) + 1"
    using s by simp
  have tb: "\<And>u. ticks_by (NewTicker (3 * Second)) u = replicate (u div (3 * Second)) TickerC"
    by (simp add: ticks_by_def NewTicker_def)
  show ?thesis
    unfolding a tb p d
    by (simp add: Start_ticks Start_period replicate_append_same)
qed

section \<open>The repository's subscriber\<close>



text \<open>The three ways through the closure.\<close>

lemma subscriber_point_refused:
  assumes "NewPoint_error lib ''device_data'' [''device'' \<mapsto> DeviceID e]
             (copy_fields (Values e) Map.empty) (now w) = Some e1"
  shows "subscriber lib repo db prec e w =
           (Returned, w\<lparr>logs := logs w @ [(ErrorLevel, ''influx point create failed'', [ZapError e1])]\<rparr>)"
  using assms by (simp add: subscriber_def NewPoint_def log_Error_def)

lemma subscriber_nil_batch:
  assumes "NewPoint_error lib ''device_data'' [''device'' \<mapsto> DeviceID e]
             (copy_fields (Values e) Map.empty) (now w) = None"
    and "fst (NewBatchPoints lib \<lparr>Database = db, Precision = prec\<rparr>) = None"
  shows "subscriber lib repo db prec e w = (Panicked, w)"
  using assms by (simp add: subscriber_def NewPoint_def)

lemma subscriber_written:
  assumes "NewPoint_error lib ''device_data'' [''device'' \<mapsto> DeviceID e]
             (copy_fields (Values e) Map.empty) (now w) = None"
    and "fst (NewBatchPoints lib \<lparr>Database = db, Precision = prec\<rparr>) = Some b"
    and "Write lib (client repo) (written w)
           (AddPoint b \<lparr>measurement = ''device_data'', ptags = [''device'' \<mapsto> DeviceID e],
                        pfields = copy_fields (Values e) Map.empty, timestamp = now w\<rparr>) = (r, took)"
  shows "subscriber lib repo db prec e w =
           (Returned,
            w\<lparr>now := now w + took,
              logs := logs w @
                [case r of
                   Some e2 \<Rightarrow> (ErrorLevel, ''influx write failed'', [ZapError e2])
                 | None \<Rightarrow> (InfoLevel, ''influx write success'', [ZapString ''device'' (DeviceID e)])],
              written := written w @
                [AddPoint b \<lparr>measurement = ''device_data'', ptags = [''device'' \<mapsto> DeviceID e],
                        pfields = copy_fields (Values e) Map.empty, timestamp = now w\<rparr>]\<rparr>)"
  using assms
  by (simp add: subscriber_def NewPoint_def log_Error_def log_Info_def split: option.splits)



lemma stub_batch_s:
  "NewBatchPoints stub_library \<lparr>Database = ''telemetry'', Precision = ''s''\<rparr> =
     (Some \<lparr>database = ''telemetry'', precision = ''s'', points = []\<rparr>, None)"
  by (simp add: stub_library_def stub_NewBatchPoints_def)

lemma stub_batch_sec:
  "NewBatchPoints stub_library \<lparr>Database = ''telemetry'', Precision = ''sec''\<rparr> =
     (None, Some ''time: unknown unit'')"
  by (simp add: stub_library_def stub_NewBatchPoints_def)


lemma run_goroutine_frame:
  assumes "run_goroutine i s = Some (out, s')"
  shows "pbus s' = pbus s \<and> runq s' = take i (runq s) @ drop (Suc i) (runq s)
         \<and> (out, pworld s') = fn (runq s ! i) (arg (runq s ! i)) (pworld s)"
  using assms
  by (auto simp: run_goroutine_def Let_def split: if_splits prod.splits)

lemma subscriber_ignores_logs:
  "fst (subscriber lib repo db prec e (w\<lparr>logs := l\<rparr>)) = fst (subscriber lib repo db prec e w)
   \<and> written (snd (subscriber lib repo db prec e (w\<lparr>logs := l\<rparr>))) =
       written (snd (subscriber lib repo db prec e w))
   \<and> now (snd (subscriber lib repo db prec e (w\<lparr>logs := l\<rparr>))) =
       now (snd (subscriber lib repo db prec e w))
   \<and> logs (snd (subscriber lib repo db prec e (w\<lparr>logs := l\<rparr>))) =
       l @ drop (length (logs w)) (logs (snd (subscriber lib repo db prec e w)))"
  by (simp add: subscriber_def NewPoint_def log_Error_def log_Info_def Let_def
      split: option.splits prod.splits sum.splits)

text \<open>
  C3. If \<open>NewPoint\<close> refuses the point, the handler logs
  \<open>influx point create failed\<close> and returns: nothing is written, and nothing but the
  log changes, so the next event \<open>e'\<close> is handled with the same outcome and the same
  writes as if the failed event had never been delivered. If the write returns an
  error, the handler logs \<open>influx write failed\<close> and returns, having called \<open>Write\<close>
  exactly once (no retry). Run as a goroutine, the handler changes neither the
  registry of the bus nor any other pending goroutine. And whatever happened to \<open>e\<close>,
  a next event \<open>e'\<close> that the library accepts and the store writes is handled to the
  end: its own one-point batch is written and the success is logged.
\<close>

theorem subscriber_failure_contained:
  "(NewPoint_error lib ''device_data'' [''device'' \<mapsto> DeviceID e]
        (copy_fields (Values e) Map.empty) (now w) = Some e1 \<longrightarrow>
      subscriber lib repo db prec e w =
        (Returned,
         w\<lparr>logs := logs w @ [(ErrorLevel, ''influx point create failed'', [ZapError e1])]\<rparr>)
      \<and> fst (subscriber lib repo db prec e' (snd (subscriber lib repo db prec e w))) =
          fst (subscriber lib repo db prec e' w)
      \<and> written (snd (subscriber lib repo db prec e' (snd (subscriber lib repo db prec e w)))) =
          written (snd (subscriber lib repo db prec e' w)))
   \<and> (NewPoint_error lib ''device_data'' [''device'' \<mapsto> DeviceID e]
        (copy_fields (Values e) Map.empty) (now w) = None
      \<and> fst (NewBatchPoints lib \<lparr>Database = db, Precision = prec\<rparr>) = Some b
      \<and> Write lib (client repo) (written w)
           (AddPoint b \<lparr>measurement = ''device_data'', ptags = [''device'' \<mapsto> DeviceID e],
                        pfields = copy_fields (Values e) Map.empty, timestamp = now w\<rparr>) =
          (Some e2, took) \<longrightarrow>
      subscriber lib repo db prec e w =
        (Returned,
         w\<lparr>now := now w + took,
           logs := logs w @ [(ErrorLevel, ''influx write failed'', [ZapError e2])],
           written := written w @
             [AddPoint b \<lparr>measurement = ''device_data'', ptags = [''device'' \<mapsto> DeviceID e],
                          pfields = copy_fields (Values e) Map.empty, timestamp = now w\<rparr>]\<rparr>))
   \<and> (runq s ! i = \<lparr>fn = subscriber lib repo db prec, arg = e\<rparr>
      \<and> run_goroutine i s = Some (out, s') \<longrightarrow>
      pbus s' = pbus s \<and> runq s' = take i (runq s) @ drop (Suc i) (runq s)
      \<and> (out, pworld s') = subscriber lib repo db prec e (pworld s))
   \<and> (NewPoint_error lib ''device_data'' [''device'' \<mapsto> DeviceID e']
        (copy_fields (Values e') Map.empty) (now (snd (subscriber lib repo db prec e w))) = None
      \<and> fst (NewBatchPoints lib \<lparr>Database = db, Precision = prec\<rparr>) = Some b'
      \<and> Write lib (client repo) (written (snd (subscriber lib repo db prec e w)))
           (AddPoint b' \<lparr>measurement = ''device_data'', ptags = [''device'' \<mapsto> DeviceID e'],
                         pfields = copy_fields (Values e') Map.empty,
                         timestamp = now (snd (subscriber lib repo db prec e w))\<rparr>) =
          (None, took') \<longrightarrow>
      fst (subscriber lib repo db prec e' (snd (subscriber lib repo db prec e w))) = Returned
      \<and> written (snd (subscriber lib repo db prec e' (snd (subscriber lib repo db prec e w)))) =
          written (snd (subscriber lib repo db prec e w)) @
            [AddPoint b' \<lparr>measurement = ''device_data'', ptags = [''device'' \<mapsto> DeviceID e'],
                         pfields = copy_fields (Values e') Map.empty,
                         timestamp = now (snd (subscriber lib repo db prec e w))\<rparr>]
      \<and> last (logs (snd (subscriber lib repo db prec e' (snd (subscriber lib repo db prec e w))))) =
          (InfoLevel, ''influx write success'', [ZapString ''device'' (DeviceID e')]))"
proof (intro conjI impI)
  assume a: "NewPoint_error lib ''device_data'' [''device'' \<mapsto> DeviceID e]
        (copy_fields (Values e) Map.empty) (now w) = Some e1"
  show r: "subscriber lib repo db prec e w =
        (Returned,
         w\<lparr>logs := logs w @ [(ErrorLevel, ''influx point create failed'', [ZapError e1])]\<rparr>)"
    by (rule subscriber_point_refused [OF a])
  show "fst (subscriber lib repo db prec e' (snd (subscriber lib repo db prec e w))) =
          fst (subscriber lib repo db prec e' w)"
    unfolding r by (simp add: subscriber_ignores_logs)
  show "written (snd (subscriber lib repo db prec e' (snd (subscriber lib repo db prec e w)))) =
          written (snd (subscriber lib repo db prec e' w))"
    unfolding r by (simp add: subscriber_ignores_logs)
next
  assume a: "NewPoint_error lib ''device_data'' [''device'' \<mapsto> DeviceID e]
        (copy_fields (Values e) Map.empty) (now w) = None
      \<and> fst (NewBatchPoints lib \<lparr>Database = db, Precision = prec\<rparr>) = Some b
      \<and> Write lib (client repo) (written w)
           (AddPoint b \<lparr>measurement = ''device_data'', ptags = [''device'' \<mapsto> DeviceID e],
                        pfields = copy_fields (Values e) Map.empty, timestamp = now w\<rparr>) =
          (Some e2, took)"
  from a have p: "NewPoint_error lib ''device_data'' [''device'' \<mapsto> DeviceID e]
        (copy_fields (Values e) Map.empty) (now w) = None" by simp
  from a have q: "fst (NewBatchPoints lib \<lparr>Database = db, Precision = prec\<rparr>) = Some b" by simp
  from a have r: "Write lib (client repo) (written w)
           (AddPoint b \<lparr>measurement = ''device_data'', ptags = [''device'' \<mapsto> DeviceID e],
                        pfields = copy_fields (Values e) Map.empty, timestamp = now w\<rparr>) =
          (Some e2, took)" by simp
  show "subscriber lib repo db prec e w =
        (Returned,
         w\<lparr>now := now w + took,
           logs := logs w @ [(ErrorLevel, ''influx write failed'', [ZapError e2])],
           written := written w @
             [AddPoint b \<lparr>measurement = ''device_data'', ptags = [''device'' \<mapsto> DeviceID e],
                          pfields = copy_fields (Values e) Map.empty, timestamp = now w\<rparr>]\<rparr>)"
    using subscriber_written [OF p q r] by simp
next
  assume a: "runq s ! i = \<lparr>fn = subscriber lib repo db prec, arg = e\<rparr>
      \<and> run_goroutine i s = Some (out, s')"
  then have g: "runq s ! i = \<lparr>fn = subscriber lib repo db prec, arg = e\<rparr>"
    and r: "run_goroutine i s = Some (out, s')" by simp_all
  from run_goroutine_frame [OF r] g
  show "pbus s' = pbus s" and "runq s' = take i (runq s) @ drop (Suc i) (runq s)"
    and "(out, pworld s') = subscriber lib repo db prec e (pworld s)"
    by simp_all
next
  let ?w1 = "snd (subscriber lib repo db prec e w)"
  assume a: "NewPoint_error lib ''device_data'' [''device'' \<mapsto> DeviceID e']
        (copy_fields (Values e') Map.empty) (now ?w1) = None
      \<and> fst (NewBatchPoints lib \<lparr>Database = db, Precision = prec\<rparr>) = Some b'
      \<and> Write lib (client repo) (written ?w1)
           (AddPoint b' \<lparr>measurement = ''device_data'', ptags = [''device'' \<mapsto> DeviceID e'],
                         pfields = copy_fields (Values e') Map.empty,
                         timestamp = now ?w1\<rparr>) =
          (None, took')"
  from a have p: "NewPoint_error lib ''device_data'' [''device'' \<mapsto> DeviceID e']
        (copy_fields (Values e') Map.empty) (now ?w1) = None" by simp
  from a have q: "fst (NewBatchPoints lib \<lparr>Database = db, Precision = prec\<rparr>) = Some b'" by simp
  from a have r: "Write lib (client repo) (written ?w1)
           (AddPoint b' \<lparr>measurement = ''device_data'', ptags = [''device'' \<mapsto> DeviceID e'],
                         pfields = copy_fields (Values e') Map.empty,
                         timestamp = now ?w1\<rparr>) = (None, took')" by simp
  note sw = subscriber_written [OF p q r]
  show "fst (subscriber lib repo db prec e' ?w1) = Returned"
    unfolding sw by simp
  show "written (snd (subscriber lib repo db prec e' ?w1)) =
          written ?w1 @
            [AddPoint b' \<lparr>measurement = ''device_data'', ptags = [''device'' \<mapsto> DeviceID e'],
                         pfields = copy_fields (Values e') Map.empty,
                         timestamp = now ?w1\<rparr>]"
    unfolding sw by simp
  show "last (logs (snd (subscriber lib repo db prec e' ?w1))) =
          (InfoLevel, ''influx write success'', [ZapString ''device'' (DeviceID e')])"
    unfolding sw by simp
qed

lemma sample_point_accepted:
  "NewPoint_error stub_library ''device_data''
      [''device'' \<mapsto> DeviceID \<lparr>DeviceID = ''A1'', Values = [(''temp'', 23.5)]\<rparr>]
      (copy_fields (Values \<lparr>DeviceID = ''A1'', Values = [(''temp'', 23.5)]\<rparr>) Map.empty) t = None"
  by (simp add: stub_library_def stub_NewPoint_error_def)

lemma empty_point_refused:
  "NewPoint_error stub_library ''device_data''
      [''device'' \<mapsto> DeviceID \<lparr>DeviceID = ''A1'', Values = []\<rparr>]
      (copy_fields (Values \<lparr>DeviceID = ''A1'', Values = []\<rparr>) Map.empty) (now world0) =
     Some ''Point without fields is unsupported''"
  by (simp add: stub_library_def stub_NewPoint_error_def)

lemma store_down_point_accepted:
  "NewPoint_error stub_library_store_down ''device_data''
      [''device'' \<mapsto> DeviceID \<lparr>DeviceID = ''A1'', Values = [(''temp'', 23.5)]\<rparr>]
      (copy_fields (Values \<lparr>DeviceID = ''A1'', Values = [(''temp'', 23.5)]\<rparr>) Map.empty) t = None"
  by (simp add: stub_library_store_down_def stub_library_def stub_NewPoint_error_def)

lemma store_down_batch:
  "fst (NewBatchPoints stub_library_store_down \<lparr>Database = ''telemetry'', Precision = ''s''\<rparr>) =
     Some \<lparr>database = ''telemetry'', precision = ''s'', points = []\<rparr>"
  by (simp add: stub_library_store_down_def stub_library_def stub_NewBatchPoints_def)

lemma store_down_write: "Write stub_library_store_down c before bp = (Some ''timeout'', 5 * Second)"
  by (simp add: stub_library_store_down_def stub_library_def)

lemma stub_batch_s_fst:
  "fst (NewBatchPoints stub_library \<lparr>Database = ''telemetry'', Precision = ''s''\<rparr>) =
     Some \<lparr>database = ''telemetry'', precision = ''s'', points = []\<rparr>"
  by (simp add: stub_batch_s)

lemma stub_write: "Write stub_library c before bp = (None, 2000000)"
  by (simp add: stub_library_def)

text \<open>
  C3 on concrete runs. An event without readings is refused by \<open>NewPoint\<close>: the
  handler logs and returns, and the collector's event delivered next is written and
  logged as a success. With the store down, the collector's event is handed to
  \<open>Write\<close> once, the failure is logged and the handler returns.
\<close>

theorem subscriber_failure_contained_runs:
  "subscriber stub_library \<lparr>client = default_client\<rparr> ''telemetry'' ''s''
      \<lparr>DeviceID = ''A1'', Values = []\<rparr> world0 =
     (Returned,
      world0\<lparr>logs := logs world0 @
        [(ErrorLevel, ''influx point create failed'',
          [ZapError ''Point without fields is unsupported''])]\<rparr>)
   \<and> subscriber stub_library_store_down \<lparr>client = default_client\<rparr> ''telemetry'' ''s''
        \<lparr>DeviceID = ''A1'', Values = [(''temp'', 23.5)]\<rparr> world0 =
       (Returned,
        world0\<lparr>now := now world0 + 5 * Second,
          logs := logs world0 @ [(ErrorLevel, ''influx write failed'', [ZapError ''timeout''])],
          written := written world0 @
            [AddPoint \<lparr>database = ''telemetry'', precision = ''s'', points = []\<rparr>
               \<lparr>measurement = ''device_data'',
                ptags = [''device'' \<mapsto> DeviceID \<lparr>DeviceID = ''A1'', Values = [(''temp'', 23.5)]\<rparr>],
                pfields = copy_fields (Values \<lparr>DeviceID = ''A1'', Values = [(''temp'', 23.5)]\<rparr>) Map.empty,
                timestamp = now world0\<rparr>]\<rparr>)
   \<and> fst (subscriber stub_library \<lparr>client = default_client\<rparr> ''telemetry'' ''s''
            \<lparr>DeviceID = ''A1'', Values = [(''temp'', 23.5)]\<rparr>
            (snd (subscriber stub_library \<lparr>client = default_client\<rparr> ''telemetry'' ''s''
                    \<lparr>DeviceID = ''A1'', Values = []\<rparr> world0))) = Returned
   \<and> last (logs (snd (subscriber stub_library \<lparr>client = default_client\<rparr> ''telemetry'' ''s''
            \<lparr>DeviceID = ''A1'', Values = [(''temp'', 23.5)]\<rparr>
            (snd (subscriber stub_library \<lparr>client = default_client\<rparr> ''telemetry'' ''s''
                    \<lparr>DeviceID = ''A1'', Values = []\<rparr> world0))))) =
       (InfoLevel, ''influx write success'',
        [ZapString ''device'' (DeviceID \<lparr>DeviceID = ''A1'', Values = [(''temp'', 23.5)]\<rparr>)])"
proof -
  note t = subscriber_failure_contained [where repo = "\<lparr>client = default_client\<rparr>"
      and db = "''telemetry''" and prec = "''s''" and w = world0]
  note a = t [where lib = stub_library and e = "\<lparr>DeviceID = ''A1'', Values = []\<rparr>",
      THEN conjunct1, THEN mp, OF empty_point_refused, THEN conjunct1]
  note b = t [where lib = stub_library_store_down
      and e = "\<lparr>DeviceID = ''A1'', Values = [(''temp'', 23.5)]\<rparr>",
      THEN conjunct2, THEN conjunct1, THEN mp,
      OF conjI [OF store_down_point_accepted conjI [OF store_down_batch store_down_write]]]
  note c = t [where lib = stub_library and e = "\<lparr>DeviceID = ''A1'', Values = []\<rparr>"
      and e' = "\<lparr>DeviceID = ''A1'', Values = [(''temp'', 23.5)]\<rparr>",
      THEN conjunct2, THEN conjunct2, THEN conjunct2, THEN mp,
      OF conjI [OF sample_point_accepted conjI [OF stub_batch_s_fst stub_write]]]
  show ?thesis
    by (intro conjI) (rule a b c [THEN conjunct1] c [THEN conjunct2, THEN conjunct2])+
qed

section \<open>Construction of the repository\<close>

lemma NewInfluxRepo_eq:
  "NewInfluxRepo lib getenv lc w eb =
     (if getenv ''APP_INFLUX_DATABASE'' = [] then Inl (log_Fatal w ''influx database is required'' [])
      else case ParseDuration lib
                  (if getenv ''APP_INFLUX_TIMEOUT'' = [] then ''5s'' else getenv ''APP_INFLUX_TIMEOUT'') of
             Inl e1 \<Rightarrow> Inl (log_Fatal w ''failed to parse influx timeout'' [ZapError e1])
           | Inr timeout \<Rightarrow>
               (case NewHTTPClient lib
                       \<lparr>Addr = (if getenv ''APP_INFLUX_URL'' = [] then ''http://localhost:8086''
                                else getenv ''APP_INFLUX_URL''),
                        Username = (if getenv ''APP_INFLUX_USERNAME'' = [] then ''admin''
                                    else getenv ''APP_INFLUX_USERNAME''),
                        Password = (if getenv ''APP_INFLUX_PASSWORD'' = [] then []
                                    else getenv ''APP_INFLUX_PASSWORD''),
                        Timeout = timeout\<rparr> of
                  Inl e2 \<Rightarrow> Inl (log_Fatal w ''failed to connect influxdb'' [ZapError e2])
                | Inr c \<Rightarrow>
                    Inr (\<lparr>client = c\<rparr>,
                         lc @ [\<lparr>OnStart = None, OnStop = Some Close\<rparr>],
                         eb\<lparr>subscribers := subscribers eb @
                            [subscriber lib \<lparr>client = c\<rparr> (getenv ''APP_INFLUX_DATABASE'')
                               (if getenv ''APP_INFLUX_PRECISION'' = [] then ''s''
                                else getenv ''APP_INFLUX_PRECISION'')]\<rparr>)))"
  unfolding NewInfluxRepo_def Let_def Subscribe_def Append_def by (rule refl)



lemma NewInfluxRepo_no_database:
  assumes "getenv ''APP_INFLUX_DATABASE'' = []"
  shows "NewInfluxRepo lib getenv lc w eb = Inl (log_Fatal w ''influx database is required'' [])"
  unfolding NewInfluxRepo_eq [of lib getenv lc w eb]
  by (simp only: assms if_True simp_thms)

lemma NewInfluxRepo_bad_timeout:
  assumes "getenv ''APP_INFLUX_DATABASE'' \<noteq> []"
    and "ParseDuration lib (if getenv ''APP_INFLUX_TIMEOUT'' = [] then ''5s'' else getenv ''APP_INFLUX_TIMEOUT'') = Inl e1"
  shows "NewInfluxRepo lib getenv lc w eb =
           Inl (log_Fatal w ''failed to parse influx timeout'' [ZapError e1])"
  unfolding NewInfluxRepo_eq [of lib getenv lc w eb]
  by (simp only: assms if_False sum.case)

lemma NewInfluxRepo_no_client:
  assumes "getenv ''APP_INFLUX_DATABASE'' \<noteq> []"
    and "ParseDuration lib (if getenv ''APP_INFLUX_TIMEOUT'' = [] then ''5s'' else getenv ''APP_INFLUX_TIMEOUT'') = Inr timeout"
    and "NewHTTPClient lib
           \<lparr>Addr = (if getenv ''APP_INFLUX_URL'' = [] then ''http://localhost:8086''
                    else getenv ''APP_INFLUX_URL''),
            Username = (if getenv ''APP_INFLUX_USERNAME'' = [] then ''admin''
                        else getenv ''APP_INFLUX_USERNAME''),
            Password = (if getenv ''APP_INFLUX_PASSWORD'' = [] then []
                        else getenv ''APP_INFLUX_PASSWORD''),
            Timeout = timeout\<rparr> = Inl e2"
  shows "NewInfluxRepo lib getenv lc w eb =
           Inl (log_Fatal w ''failed to connect influxdb'' [ZapError e2])"
  unfolding NewInfluxRepo_eq [of lib getenv lc w eb]
  by (simp only: assms if_False sum.case)

lemma NewInfluxRepo_constructed:
  assumes "getenv ''APP_INFLUX_DATABASE'' \<noteq> []"
    and "ParseDuration lib (if getenv ''APP_INFLUX_TIMEOUT'' = [] then ''5s'' else getenv ''APP_INFLUX_TIMEOUT'') = Inr timeout"
    and "NewHTTPClient lib
           \<lparr>Addr = (if getenv ''APP_INFLUX_URL'' = [] then ''http://localhost:8086''
                    else getenv ''APP_INFLUX_URL''),
            Username = (if getenv ''APP_INFLUX_USERNAME'' = [] then ''admin''
                        else getenv ''APP_INFLUX_USERNAME''),
            Password = (if getenv ''APP_INFLUX_PASSWORD'' = [] then []
                        else getenv ''APP_INFLUX_PASSWORD''),
            Timeout = timeout\<rparr> = Inr c"
  shows "NewInfluxRepo lib getenv lc w eb =
           Inr (\<lparr>client = c\<rparr>,
             lc @ [\<lparr>OnStart = None, OnStop = Some Close\<rparr>],
             eb\<lparr>subscribers := subscribers eb @
                [subscriber lib \<lparr>client = c\<rparr> (getenv ''APP_INFLUX_DATABASE'')
                   (if getenv ''APP_INFLUX_PRECISION'' = [] then ''s''
                    else getenv ''APP_INFLUX_PRECISION'')]\<rparr>)"
  unfolding NewInfluxRepo_eq [of lib getenv lc w eb]
  by (simp only: assms if_False sum.case)



lemma env_database_only_database: "env_database_only ''APP_INFLUX_DATABASE'' \<noteq> []"
  by (simp add: env_database_only_def)



lemma env_database_only_parse:
  "ParseDuration stub_library
     (if env_database_only ''APP_INFLUX_TIMEOUT'' = [] then ''5s''
      else env_database_only ''APP_INFLUX_TIMEOUT'') = Inr (5 * Second)"
  by (simp add: env_database_only_def stub_library_def stub_ParseDuration_def)


lemma env_database_only_client:
  "NewHTTPClient stub_library
     \<lparr>Addr = (if env_database_only ''APP_INFLUX_URL'' = [] then ''http://localhost:8086''
              else env_database_only ''APP_INFLUX_URL''),
      Username = (if env_database_only ''APP_INFLUX_USERNAME'' = [] then ''admin''
                  else env_database_only ''APP_INFLUX_USERNAME''),
      Password = (if env_database_only ''APP_INFLUX_PASSWORD'' = [] then []
                  else env_database_only ''APP_INFLUX_PASSWORD''),
      Timeout = 5 * Second\<rparr> = Inr default_client"
  by (simp add: env_database_only_def stub_library_def default_client_def)


lemma live_registry: "pbus (live x s) = pbus s"
proof (cases x)
  case (Publishes e)
  then show ?thesis by simp
next
  case (Runs i)
  show ?thesis
  proof (cases "run_goroutine i s")
    case None
    with Runs show ?thesis by simp
  next
    case (Some r)
    obtain out s' where r: "r = (out, s')" by (cases r)
    from run_goroutine_frame [of i s out s'] Some r have "pbus s' = pbus s" by simp
    with Runs Some r show ?thesis by simp
  qed
next
  case (Stops lc)
  then show ?thesis by simp
qed

lemma lives_registry: "pbus (lives xs s) = pbus s"
  by (induction xs arbitrary: s) (simp_all add: live_registry)

lemma NewInfluxRepo_Inr:
  assumes "NewInfluxRepo lib getenv lc w eb = Inr (repo, lc', eb')"
  shows "eb' = eb\<lparr>subscribers := subscribers eb @
           [subscriber lib repo (getenv ''APP_INFLUX_DATABASE'')
              (if getenv ''APP_INFLUX_PRECISION'' = [] then ''s''
               else getenv ''APP_INFLUX_PRECISION'')]\<rparr>
         \<and> lc' = lc @ [\<lparr>OnStart = None, OnStop = Some Close\<rparr>]"
proof (cases "getenv ''APP_INFLUX_DATABASE'' = []")
  case True
  from NewInfluxRepo_no_database [where getenv = getenv and lib = lib and lc = lc and w = w and eb = eb, OF True] assms show ?thesis by simp
next
  case db: False
  show ?thesis
  proof (cases "ParseDuration lib
                  (if getenv ''APP_INFLUX_TIMEOUT'' = [] then ''5s'' else getenv ''APP_INFLUX_TIMEOUT'')")
    case (Inl e1)
    from NewInfluxRepo_bad_timeout [where getenv = getenv and lib = lib and lc = lc and w = w and eb = eb, OF db Inl] assms show ?thesis by simp
  next
    case t: (Inr timeout)
    show ?thesis
    proof (cases "NewHTTPClient lib
           \<lparr>Addr = (if getenv ''APP_INFLUX_URL'' = [] then ''http://localhost:8086''
                    else getenv ''APP_INFLUX_URL''),
            Username = (if getenv ''APP_INFLUX_USERNAME'' = [] then ''admin''
                        else getenv ''APP_INFLUX_USERNAME''),
            Password = (if getenv ''APP_INFLUX_PASSWORD'' = [] then []
                        else getenv ''APP_INFLUX_PASSWORD''),
            Timeout = timeout\<rparr>")
      case (Inl e2)
      from NewInfluxRepo_no_client [where getenv = getenv and lib = lib and lc = lc and w = w and eb = eb, OF db t Inl] assms show ?thesis by simp
    next
      case (Inr c)
      from NewInfluxRepo_constructed [where getenv = getenv and lib = lib and lc = lc and w = w and eb = eb, OF db t Inr] assms show ?thesis by simp
    qed
  qed
qed

text \<open>
  C8. When \<open>NewInfluxRepo\<close> returns, the registry of the bus is the registry before
  with exactly one handler appended, the repository's closure. Afterwards, whatever is
  published, whichever goroutines run and whenever the lifecycle stops, the registry
  stays what construction left: the repository subscribes nothing more.
\<close>

theorem NewInfluxRepo_subscribes_once:
  assumes "NewInfluxRepo lib getenv lc w eb = Inr (repo, lc', eb')"
  shows "subscribers eb' = subscribers eb @
           [subscriber lib repo (getenv ''APP_INFLUX_DATABASE'')
              (if getenv ''APP_INFLUX_PRECISION'' = [] then ''s''
               else getenv ''APP_INFLUX_PRECISION'')]
         \<and> length (subscribers eb') = Suc (length (subscribers eb))
         \<and> subscribers (pbus (lives xs \<lparr>pbus = eb', runq = q, pworld = w'\<rparr>)) = subscribers eb'"
proof -
  from NewInfluxRepo_Inr [OF assms]
  have "subscribers eb' = subscribers eb @
           [subscriber lib repo (getenv ''APP_INFLUX_DATABASE'')
              (if getenv ''APP_INFLUX_PRECISION'' = [] then ''s''
               else getenv ''APP_INFLUX_PRECISION'')]"
    by simp
  then show ?thesis by (simp add: lives_registry)
qed

lemma stub_construction:
  "NewInfluxRepo stub_library env_database_only [] world0 NewEventBus =
     Inr (\<lparr>client = default_client\<rparr>,
          [\<lparr>OnStart = None, OnStop = Some Close\<rparr>],
          \<lparr>subscribers = [subscriber stub_library \<lparr>client = default_client\<rparr> ''telemetry'' ''s'']\<rparr>)"
  using NewInfluxRepo_constructed [where getenv = env_database_only and lib = stub_library
      and lc = "[]" and w = world0 and eb = NewEventBus,
      OF env_database_only_database env_database_only_parse env_database_only_client]
  by (simp add: env_database_only_def NewEventBus_def)

text \<open>
  C8 on a concrete run: constructed on an empty bus, with only the database name set,
  the repository leaves a registry of exactly one handler, and the registry is the
  same after an event is published, its goroutine has run and the lifecycle has
  stopped.
\<close>

theorem NewInfluxRepo_subscribes_once_run:
  "NewInfluxRepo stub_library env_database_only [] world0 NewEventBus =
     Inr (\<lparr>client = default_client\<rparr>,
          [\<lparr>OnStart = None, OnStop = Some Close\<rparr>],
          \<lparr>subscribers = [subscriber stub_library \<lparr>client = default_client\<rparr> ''telemetry'' ''s'']\<rparr>)
   \<and> subscribers \<lparr>subscribers = [subscriber stub_library \<lparr>client = default_client\<rparr> ''telemetry'' ''s'']\<rparr> =
       subscribers NewEventBus @ [subscriber stub_library \<lparr>client = default_client\<rparr> ''telemetry'' ''s'']
   \<and> subscribers (pbus (lives
         [Publishes \<lparr>DeviceID = ''A1'', Values = [(''temp'', 23.5)]\<rparr>, Runs 0,
          Stops [\<lparr>OnStart = None, OnStop = Some Close\<rparr>]]
         \<lparr>pbus = \<lparr>subscribers = [subscriber stub_library \<lparr>client = default_client\<rparr> ''telemetry'' ''s'']\<rparr>,
          runq = [], pworld = world0\<rparr>)) =
       [subscriber stub_library \<lparr>client = default_client\<rparr> ''telemetry'' ''s'']"
proof (intro conjI)
  show "NewInfluxRepo stub_library env_database_only [] world0 NewEventBus =
     Inr (\<lparr>client = default_client\<rparr>,
          [\<lparr>OnStart = None, OnStop = Some Close\<rparr>],
          \<lparr>subscribers = [subscriber stub_library \<lparr>client = default_client\<rparr> ''telemetry'' ''s'']\<rparr>)"
    by (rule stub_construction)
  note t = NewInfluxRepo_subscribes_once [OF stub_construction,
      of "[Publishes \<lparr>DeviceID = ''A1'', Values = [(''temp'', 23.5)]\<rparr>, Runs 0,
          Stops [\<lparr>OnStart = None, OnStop = Some Close\<rparr>]]" "[]" world0]
  from t show "subscribers \<lparr>subscribers = [subscriber stub_library \<lparr>client = default_client\<rparr> ''telemetry'' ''s'']\<rparr> =
       subscribers NewEventBus @ [subscriber stub_library \<lparr>client = default_client\<rparr> ''telemetry'' ''s'']"
    by (simp add: env_database_only_def NewEventBus_def)
  from t [THEN conjunct2, THEN conjunct2] show "subscribers (pbus (lives
         [Publishes \<lparr>DeviceID = ''A1'', Values = [(''temp'', 23.5)]\<rparr>, Runs 0,
          Stops [\<lparr>OnStart = None, OnStop = Some Close\<rparr>]]
         \<lparr>pbus = \<lparr>subscribers = [subscriber stub_library \<lparr>client = default_client\<rparr> ''telemetry'' ''s'']\<rparr>,
          runq = [], pworld = world0\<rparr>)) =
       [subscriber stub_library \<lparr>client = default_client\<rparr> ''telemetry'' ''s'']"
    by (simp only: EventBus.select_convs)
qed

section \<open>The ignored error of \<open>NewBatchPoints\<close>\<close>

text \<open>
  With \<open>APP_INFLUX_PRECISION=sec\<close> the repository is constructed as usual (the
  precision is not checked at startup), and \<open>NewBatchPoints\<close> then answers every
  event with \<open>nil\<close> and an error.
\<close>

lemma env_bad_precision_database: "env_bad_precision ''APP_INFLUX_DATABASE'' \<noteq> []"
  by (simp add: env_bad_precision_def)

lemma env_bad_precision_parse:
  "ParseDuration stub_library
     (if env_bad_precision ''APP_INFLUX_TIMEOUT'' = [] then ''5s''
      else env_bad_precision ''APP_INFLUX_TIMEOUT'') = Inr (5 * Second)"
  by (simp add: env_bad_precision_def stub_library_def stub_ParseDuration_def)

lemma env_bad_precision_client:
  "NewHTTPClient stub_library
     \<lparr>Addr = (if env_bad_precision ''APP_INFLUX_URL'' = [] then ''http://localhost:8086''
              else env_bad_precision ''APP_INFLUX_URL''),
      Username = (if env_bad_precision ''APP_INFLUX_USERNAME'' = [] then ''admin''
                  else env_bad_precision ''APP_INFLUX_USERNAME''),
      Password = (if env_bad_precision ''APP_INFLUX_PASSWORD'' = [] then []
                  else env_bad_precision ''APP_INFLUX_PASSWORD''),
      Timeout = 5 * Second\<rparr> = Inr default_client"
  by (simp add: env_bad_precision_def stub_library_def default_client_def)

lemma bad_precision_construction:
  "NewInfluxRepo stub_library env_bad_precision [] world0 NewEventBus =
     Inr (\<lparr>client = default_client\<rparr>,
          [\<lparr>OnStart = None, OnStop = Some Close\<rparr>],
          \<lparr>subscribers = [subscriber stub_library \<lparr>client = default_client\<rparr> ''telemetry'' ''sec'']\<rparr>)"
  using NewInfluxRepo_constructed [where getenv = env_bad_precision and lib = stub_library
      and lc = "[]" and w = world0 and eb = NewEventBus,
      OF env_bad_precision_database env_bad_precision_parse env_bad_precision_client]
  by (simp add: env_bad_precision_def NewEventBus_def)

lemma bad_precision_panics:
  "subscriber stub_library \<lparr>client = default_client\<rparr> ''telemetry'' ''sec''
      \<lparr>DeviceID = ''A1'', Values = [(''temp'', 23.5)]\<rparr> world0 = (Panicked, world0)"
  by (rule subscriber_nil_batch [OF sample_point_accepted]) (simp add: stub_batch_sec)

text \<open>
  C10 at the failing input. The error of \<open>NewBatchPoints\<close> is dropped and nothing is
  logged, but the handler does not go on as if nothing had happened: \<open>bp\<close> is \<open>nil\<close>,
  the point is constructed, and \<open>bp.AddPoint\<close> panics.
\<close>

theorem ignored_batch_error_panics:
  "NewInfluxRepo stub_library env_bad_precision [] world0 NewEventBus =
     Inr (\<lparr>client = default_client\<rparr>,
          [\<lparr>OnStart = None, OnStop = Some Close\<rparr>],
          \<lparr>subscribers = [subscriber stub_library \<lparr>client = default_client\<rparr> ''telemetry'' ''sec'']\<rparr>)
   \<and> NewBatchPoints stub_library \<lparr>Database = ''telemetry'', Precision = ''sec''\<rparr> =
       (None, Some ''time: unknown unit'')
   \<and> subscriber stub_library \<lparr>client = default_client\<rparr> ''telemetry'' ''sec''
         \<lparr>DeviceID = ''A1'', Values = [(''temp'', 23.5)]\<rparr> world0 = (Panicked, world0)
   \<and> logs world0 = []"
proof (intro conjI)
  show "logs world0 = []" by (simp add: world0_def)
qed (rule bad_precision_construction stub_batch_sec bad_precision_panics)+

lemma run_goroutine_single:
  "run_goroutine 0 \<lparr>pbus = b, runq = [\<lparr>fn = h, arg = e\<rparr>], pworld = w\<rparr> =
     Some (fst (h e w), \<lparr>pbus = b, runq = [], pworld = snd (h e w)\<rparr>)"
  by (simp add: run_goroutine_def case_prod_beta)

text \<open>
  C9 at the failing input. Point construction succeeds for the collector's event, the
  event is published and its goroutine runs; the goroutine panics and no write call
  has been made (the world is as before, nothing written).
\<close>

theorem nil_batch_point_never_written:
  "NewPoint stub_library ''device_data'' [''device'' \<mapsto> ''A1''] [''temp'' \<mapsto> Float64 23.5] 0 =
     Inr \<lparr>measurement = ''device_data'', ptags = [''device'' \<mapsto> ''A1''],
          pfields = [''temp'' \<mapsto> Float64 23.5], timestamp = 0\<rparr>
   \<and> run_goroutine 0
        (live (Publishes \<lparr>DeviceID = ''A1'', Values = [(''temp'', 23.5)]\<rparr>)
           \<lparr>pbus = \<lparr>subscribers = [subscriber stub_library \<lparr>client = default_client\<rparr> ''telemetry'' ''sec'']\<rparr>,
            runq = [], pworld = world0\<rparr>) =
       Some (Panicked,
             \<lparr>pbus = \<lparr>subscribers = [subscriber stub_library \<lparr>client = default_client\<rparr> ''telemetry'' ''sec'']\<rparr>,
              runq = [], pworld = world0\<rparr>)
   \<and> written world0 = []"
proof (intro conjI)
  show "NewPoint stub_library ''device_data'' [''device'' \<mapsto> ''A1''] [''temp'' \<mapsto> Float64 23.5] 0 =
     Inr \<lparr>measurement = ''device_data'', ptags = [''device'' \<mapsto> ''A1''],
          pfields = [''temp'' \<mapsto> Float64 23.5], timestamp = 0\<rparr>"
    by (simp add: NewPoint_def stub_library_def stub_NewPoint_error_def)
  show "run_goroutine 0
        (live (Publishes \<lparr>DeviceID = ''A1'', Values = [(''temp'', 23.5)]\<rparr>)
           \<lparr>pbus = \<lparr>subscribers = [subscriber stub_library \<lparr>client = default_client\<rparr> ''telemetry'' ''sec'']\<rparr>,
            runq = [], pworld = world0\<rparr>) =
       Some (Panicked,
             \<lparr>pbus = \<lparr>subscribers = [subscriber stub_library \<lparr>client = default_client\<rparr> ''telemetry'' ''sec'']\<rparr>,
              runq = [], pworld = world0\<rparr>)"
  proof -
    let ?h = "subscriber stub_library \<lparr>client = default_client\<rparr> ''telemetry'' ''sec''"
    let ?e = "\<lparr>DeviceID = ''A1'', Values = [(''temp'', 23.5)]\<rparr>"
    have q: "live (Publishes ?e) \<lparr>pbus = \<lparr>subscribers = [?h]\<rparr>, runq = [], pworld = world0\<rparr> =
        \<lparr>pbus = \<lparr>subscribers = [?h]\<rparr>, runq = [\<lparr>fn = ?h, arg = ?e\<rparr>], pworld = world0\<rparr>"
      by (simp add: Publish_def)
    show ?thesis
      unfolding q run_goroutine_single bad_precision_panics
      by (simp only: fst_conv snd_conv)
  qed
  show "written world0 = []" by (simp add: world0_def)
qed

end
